theory Spec2Isabelle
  imports Main
begin

section \<open>The Express example: \<open>GET /mint\<close>\<close>

text \<open>
  The program is \<^verbatim>\<open>src/nodejs/express/mint-nft-meta-transactions/src/index.js\<close>: an Express
  application with a single route, \<^verbatim>\<open>GET /mint\<close>, whose handler is an async arrow function
  wrapped in \<^verbatim>\<open>asyncHandler\<close>:
  \<^verbatim>\<open>
  app.get("/mint", asyncHandler(async (req, res) => {
      const to = "0x07ac68355ff8663c09644bc50bb02b60140842a8";
      const count = 2;
      const tokenURIs = ["ipfs://xxxxx/1", "ipfs://xxxxx/2"];
      const data = await nftContract.metaTransaction.mintWithTokenURIsByOwner(to, count, tokenURIs);
      res.send(data);
  }));
  \<close>
\<close>

subsection \<open>Requests, the SDK and the server state\<close>

text \<open>
  What a caller controls in an HTTP request: the query string, the headers and the body.
\<close>

record request =
  req_query :: "(string \<times> string) list"
  req_headers :: "(string \<times> string) list"
  req_body :: string

text \<open>
  \<^verbatim>\<open>nftContract.metaTransaction.mintWithTokenURIsByOwner\<close> belongs to the \<^verbatim>\<open>flair-sdk\<close> package.
  It is a parameter of the model: given the three arguments and the state \<open>'w\<close> of everything
  behind it (signer, relayer), the promise it returns is rejected with an error (\<open>Inl\<close>) or
  resolved with a value (\<open>Inr\<close>), and the state behind it may have changed.
\<close>

type_synonym ('w, 'd, 'e) sdk = "string \<Rightarrow> int \<Rightarrow> string list \<Rightarrow> 'w \<Rightarrow> ('e + 'd) \<times> 'w"

text \<open>
  The response object \<^verbatim>\<open>res\<close> is Express's. The handler uses its \<^verbatim>\<open>send\<close> only, which is a
  parameter of the model too: called with a value, it returns (\<open>None\<close>) or throws an error
  (\<open>Some\<close>), as it does on a value it cannot serialise.
\<close>

type_synonym ('d, 'e) response = "'d \<Rightarrow> 'e option"

text \<open>
  What the handler does that can be observed: a call of the SDK with its arguments, a call
  of \<^verbatim>\<open>res.send\<close> with its argument, an error handed to Express with \<^verbatim>\<open>next\<close>.
\<close>

datatype ('d, 'e) event =
    SdkMint string int "string list"
  | ResSend 'd
  | NextErr 'e

record ('w, 'd, 'e) server =
  world :: 'w
  events :: "('d, 'e) event list"

definition emit :: "('d, 'e) event \<Rightarrow> ('w, 'd, 'e) server \<Rightarrow> ('w, 'd, 'e) server" where
  "emit ev s = s\<lparr>events := events s @ [ev]\<rparr>"

subsection \<open>The handler\<close>

definition mint_to :: string where
  "mint_to = ''0x07ac68355ff8663c09644bc50bb02b60140842a8''"

definition mint_count :: int where
  "mint_count = 2"

definition mint_tokenURIs :: "string list" where
  "mint_tokenURIs = [''ipfs://xxxxx/1'', ''ipfs://xxxxx/2'']"

text \<open>
  The async arrow function of lines 56 to 78. Its promise is rejected (\<open>Inl\<close>) when the
  awaited SDK promise is rejected: \<^verbatim>\<open>await\<close> throws there and \<^verbatim>\<open>res.send\<close> is not reached.
  It is rejected as well when \<^verbatim>\<open>res.send(data)\<close>, at line 77, throws: nothing in the function
  catches. The request \<open>req\<close> is bound and never read.
\<close>

definition mint_route ::
  "('w, 'd, 'e) sdk \<Rightarrow> request \<Rightarrow> ('d, 'e) response \<Rightarrow> ('w, 'd, 'e) server \<Rightarrow>
   ('e + unit) \<times> ('w, 'd, 'e) server" where
  "mint_route sdk req res s =
     (let to = mint_to;
          count = mint_count;
          tokenURIs = mint_tokenURIs;
          s1 = emit (SdkMint to count tokenURIs) s;
          (settled, w') = sdk to count tokenURIs (world s1);
          s2 = s1\<lparr>world := w'\<rparr>
      in case settled of
           Inl err \<Rightarrow> (Inl err, s2)
         | Inr data \<Rightarrow>
             (let s3 = emit (ResSend data) s2
              in case res data of
                   Some err \<Rightarrow> (Inl err, s3)
                 | None \<Rightarrow> (Inr (), s3)))"

text \<open>
  \<^verbatim>\<open>asyncHandler\<close> is the package \<^verbatim>\<open>express-async-handler\<close>, required at line 4; its code is
  not in the repository. It is modelled as the package documents it: the wrapped function
  is called, and a rejection of its promise is passed to \<^verbatim>\<open>next\<close>
  (\<^verbatim>\<open>Promise.resolve(fn(req, res, next)).catch(next)\<close>); nothing more is done when the promise
  resolves.
\<close>

definition asyncHandler ::
  "(request \<Rightarrow> ('d, 'e) response \<Rightarrow> ('w, 'd, 'e) server \<Rightarrow> ('e + unit) \<times> ('w, 'd, 'e) server) \<Rightarrow>
   request \<Rightarrow> ('d, 'e) response \<Rightarrow> ('w, 'd, 'e) server \<Rightarrow> ('w, 'd, 'e) server" where
  "asyncHandler fn req res s =
     (case fn req res s of
        (Inl err, s') \<Rightarrow> emit (NextErr err) s'
      | (Inr _, s') \<Rightarrow> s')"

definition mint_handler ::
  "('w, 'd, 'e) sdk \<Rightarrow> request \<Rightarrow> ('d, 'e) response \<Rightarrow> ('w, 'd, 'e) server \<Rightarrow>
   ('w, 'd, 'e) server" where
  "mint_handler sdk = asyncHandler (mint_route sdk)"

text \<open>Requests served one after the other, each with the response object Express made for it.\<close>

fun serve ::
  "('w, 'd, 'e) sdk \<Rightarrow> (request \<times> ('d, 'e) response) list \<Rightarrow> ('w, 'd, 'e) server \<Rightarrow>
   ('w, 'd, 'e) server" where
  "serve sdk [] s = s"
| "serve sdk ((req, res) # rs) s = serve sdk rs (mint_handler sdk req res s)"

subsection \<open>Reading the event log\<close>

fun sdk_calls :: "('d, 'e) event list \<Rightarrow> (string \<times> int \<times> string list) list" where
  "sdk_calls [] = []"
| "sdk_calls (SdkMint to n uris # evs) = (to, n, uris) # sdk_calls evs"
| "sdk_calls (_ # evs) = sdk_calls evs"

fun sent :: "('d, 'e) event list \<Rightarrow> 'd list" where
  "sent [] = []"
| "sent (ResSend d # evs) = d # sent evs"
| "sent (_ # evs) = sent evs"

fun forwarded :: "('d, 'e) event list \<Rightarrow> 'e list" where
  "forwarded [] = []"
| "forwarded (NextErr e # evs) = e # forwarded evs"
| "forwarded (_ # evs) = forwarded evs"


text \<open>The events that \<open>s'\<close> has and \<open>s\<close>, an earlier state of the same server, has not.\<close>

definition since :: "('w, 'd, 'e) server \<Rightarrow> ('w, 'd, 'e) server \<Rightarrow> ('d, 'e) event list" where
  "since s s' = drop (length (events s)) (events s')"

subsection \<open>The error taxonomy and stand-ins for the SDK\<close>

text \<open>The six error codes of section 7 of the specification.\<close>

datatype error =
    InvalidRequest
  | LedgerUnavailable
  | SigningUnavailable
  | RelayRejected
  | RelayUnavailable
  | InvalidTransition

text \<open>
  What a stand-in may throw: an error with a code of the taxonomy, or JavaScript's
  \<^verbatim>\<open>TypeError\<close>.
\<close>

datatype js_error = Coded error | TypeError

text \<open>
  A stand-in for the SDK, to run the handler on concrete requests; it is not part of the
  program. The state behind it is the number of meta transactions the relayer has taken so
  far. It checks its own arguments: a call whose \<open>count\<close> is not the number of token URIs
  is rejected with \<open>InvalidRequest\<close>; any other call resolves with the number of the
  submission, and the relayer has one more.
\<close>

definition demo_sdk :: "(nat, nat, js_error) sdk" where
  "demo_sdk to n uris w =
     (if n = int (length uris) then (Inr w, Suc w) else (Inl (Coded InvalidRequest), w))"


text \<open>
  Two stand-ins for the response object: one whose \<^verbatim>\<open>send\<close> returns, and one whose \<^verbatim>\<open>send\<close>
  throws a \<^verbatim>\<open>TypeError\<close> on every value.
\<close>

definition ok_res :: "(nat, js_error) response" where
  "ok_res data = None"


definition fresh :: "nat \<Rightarrow> (nat, nat, js_error) server" where
  "fresh w = \<lparr>world = w, events = []\<rparr>"

text \<open>
  A request that carries the four inputs of the specification's mint operation as query
  parameters, one \<open>tokenURIs\<close> parameter for each URI.
\<close>

definition mint_request :: "string \<Rightarrow> string \<Rightarrow> string list \<Rightarrow> string \<Rightarrow> request" where
  "mint_request recipient n uris key =
     \<lparr>req_query = [(''recipientAddress'', recipient), (''count'', n)]
                    @ map (\<lambda>u. (''tokenURIs'', u)) uris
                    @ [(''idempotencyKey'', key)],
      req_headers = [],
      req_body = []\<rparr>"

section \<open>The Relay Client of the specification\<close>

text \<open>
  Modelled from the spec: the example hands signing and submission to the SDK, and no file
  of the repository holds a relay client, an envelope or a nonce ledger. The types and
  functions of this section follow sections 3, 4.1 and 4.4 of the specification.
\<close>

record payload =
  chainId :: nat
  contractAddress :: string
  callDescriptor :: string
  nonce :: nat
  domainContext :: string

record envelope = payload +
  signature :: string

text \<open>
  Modelled from the spec: what the relay answers to one attempt (sections 4.4 and 6): acceptance with a tracking handle, "already seen
  this exact envelope" with the handle issued before, one of the three transient failures
  (a timeout, a 5xx-equivalent response, a connection error), or a permanent rejection
  with its reason code.
\<close>

datatype relay_response =
    Accepted string
  | AlreadySeen string
  | Timeout
  | ServerError
  | ConnectionError
  | Rejected string

fun transient :: "relay_response \<Rightarrow> bool" where
  "transient Timeout = True"
| "transient ServerError = True"
| "transient ConnectionError = True"
| "transient _ = False"

fun permanent :: "relay_response \<Rightarrow> bool" where
  "permanent (Rejected _) = True"
| "permanent _ = False"

type_synonym account = string

type_synonym nonce_ledger = "account \<Rightarrow> nat"

text \<open>
  Modelled from the spec: the Nonce Ledger's \<open>reconcile(account, onChainNonce)\<close> of section
  4.1, absent from the repository: it resynchronizes the account's counter to the
  authoritative value.
\<close>

definition reconcile :: "account \<Rightarrow> nat \<Rightarrow> nonce_ledger \<Rightarrow> nonce_ledger" where
  "reconcile a onChainNonce ledger = ledger(a := onChainNonce)"

datatype relay_event =
    Attempt envelope relay_response
  | Reconcile account nat

text \<open>
  The relay is outside the system: \<open>relay_send\<close> gives its answer to an envelope in the
  relay's state \<open>'r\<close>, and \<open>chain_nonce\<close> the authoritative nonce of an account there.
\<close>

record 'r relay_config =
  relay_send :: "envelope \<Rightarrow> 'r \<Rightarrow> relay_response \<times> 'r"
  chain_nonce :: "'r \<Rightarrow> account \<Rightarrow> nat"
  maxAttempts :: nat
  signing_account :: account

record 'r relay_client =
  relay :: 'r
  nonces :: nonce_ledger
  relay_log :: "relay_event list"

definition reconcile_nonce :: "'r relay_config \<Rightarrow> 'r relay_client \<Rightarrow> 'r relay_client" where
  "reconcile_nonce cfg st =
     (let a = signing_account cfg; n = chain_nonce cfg (relay st) a
      in st\<lparr>nonces := reconcile a n (nonces st),
             relay_log := relay_log st @ [Reconcile a n]\<rparr>)"

text \<open>
  Modelled from the spec: the Relay Client's \<open>submit(signedEnvelope)\<close> of section 4.4, absent
  from the repository. The envelope is sent; an acceptance, or the answer that the relay
  has already seen this envelope, returns the tracking handle; a permanent rejection fails
  at once with \<open>RelayRejected\<close> and triggers the nonce reconciliation; a transient failure is
  retried with the same envelope while attempts remain, and \<open>RelayUnavailable\<close> is the
  result when none does. The first argument is the number of attempts left. The waiting
  between attempts (backoff, jitter) and the bound on the total elapsed time are left out.
\<close>

fun submit_attempts ::
  "nat \<Rightarrow> 'r relay_config \<Rightarrow> envelope \<Rightarrow> 'r relay_client \<Rightarrow> (error + string) \<times> 'r relay_client" where
  "submit_attempts 0 cfg env st = (Inl RelayUnavailable, st)"
| "submit_attempts (Suc n) cfg env st =
     (let (resp, r') = relay_send cfg env (relay st);
          st1 = st\<lparr>relay := r', relay_log := relay_log st @ [Attempt env resp]\<rparr>
      in case resp of
           Accepted h \<Rightarrow> (Inr h, st1)
         | AlreadySeen h \<Rightarrow> (Inr h, st1)
         | Rejected reason \<Rightarrow> (Inl RelayRejected, reconcile_nonce cfg st1)
         | _ \<Rightarrow> submit_attempts n cfg env st1)"

definition submit ::
  "'r relay_config \<Rightarrow> envelope \<Rightarrow> 'r relay_client \<Rightarrow> (error + string) \<times> 'r relay_client" where
  "submit cfg env st = submit_attempts (maxAttempts cfg) cfg env st"

fun responses :: "relay_event list \<Rightarrow> relay_response list" where
  "responses [] = []"
| "responses (Attempt env resp # evs) = resp # responses evs"
| "responses (_ # evs) = responses evs"

fun reconciliations :: "relay_event list \<Rightarrow> (account \<times> nat) list" where
  "reconciliations [] = []"
| "reconciliations (Reconcile a n # evs) = (a, n) # reconciliations evs"
| "reconciliations (_ # evs) = reconciliations evs"

text \<open>
  What one call of \<open>submit\<close> may add to the log, \<open>n\<close> being the attempts it may make: at
  most \<open>n\<close> attempts; every attempt but the last one failed transiently; the result is
  \<open>RelayUnavailable\<close> exactly when all \<open>n\<close> attempts were made and failed transiently, and
  \<open>RelayRejected\<close> exactly when the last attempt was rejected for good; the nonce is
  reconciled once in that case, and not at all otherwise.
\<close>

abbreviation retry_policy ::
  "'r relay_config \<Rightarrow> nat \<Rightarrow> (error + string) \<Rightarrow> 'r relay_client \<Rightarrow> 'r relay_client \<Rightarrow>
   relay_event list \<Rightarrow> bool" where
  "retry_policy cfg n res st st' new \<equiv>
     length (responses new) \<le> n \<and>
     list_all transient (butlast (responses new)) \<and>
     (res = Inl RelayUnavailable) =
       (length (responses new) = n \<and> list_all transient (responses new)) \<and>
     (res = Inl RelayRejected) =
       (responses new \<noteq> [] \<and> permanent (last (responses new))) \<and>
     reconciliations new =
       (if res = Inl RelayRejected
        then [(signing_account cfg, chain_nonce cfg (relay st') (signing_account cfg))]
        else []) \<and>
     nonces st' =
       (if res = Inl RelayRejected
        then reconcile (signing_account cfg) (chain_nonce cfg (relay st') (signing_account cfg))
               (nonces st)
        else nonces st)"

text \<open>A relay that answers from a script, one answer for each attempt, then times out.\<close>

definition scripted :: "envelope \<Rightarrow> relay_response list \<Rightarrow> relay_response \<times> relay_response list" where
  "scripted env script = (case script of [] \<Rightarrow> (Timeout, []) | resp # rest \<Rightarrow> (resp, rest))"

definition demo_relay :: "nat \<Rightarrow> (relay_response list) relay_config" where
  "demo_relay n =
     \<lparr>relay_send = scripted, chain_nonce = (\<lambda>script a. 7), maxAttempts = n,
      signing_account = ''minter''\<rparr>"

definition demo_envelope :: envelope where
  "demo_envelope =
     \<lparr>chainId = 137, contractAddress = ''0xc0ffee'', callDescriptor = ''mint'', nonce = 5,
      domainContext = ''v1'', signature = ''0x5161''\<rparr>"

definition demo_client :: "relay_response list \<Rightarrow> (relay_response list) relay_client" where
  "demo_client script = \<lparr>relay = script, nonces = (\<lambda>a. 6), relay_log = []\<rparr>"

section \<open>The Submission Ledger of the specification\<close>

text \<open>
  Modelled from the spec: the example keeps no record of its submissions, and no file of
  the repository holds a submission ledger. The types and functions of this section follow
  sections 3 and 4.5 of the specification.
\<close>

datatype status = Pending | Submitted | Mined | Failed

record submission_record =
  status :: status
  trackingHandle :: "string option"
  assignedNonce :: "nat option"
  createdAt :: nat
  lastError :: "string option"
  onChainRef :: "string option"

type_synonym submission_ledger = "string \<rightharpoonup> submission_record"

definition terminal :: "status \<Rightarrow> bool" where
  "terminal st = (st = Mined \<or> st = Failed)"

text \<open>
  Modelled from the spec: the lifecycle of section 3. A record is created in \<open>Pending\<close>;
  it goes to \<open>Submitted\<close> when the Relay Client accepts the envelope, and from there to
  \<open>Mined\<close> or \<open>Failed\<close> once the Status Tracker observes a terminal outcome.
\<close>

fun valid_transition :: "status \<Rightarrow> status \<Rightarrow> bool" where
  "valid_transition Pending Submitted = True"
| "valid_transition Submitted Mined = True"
| "valid_transition Submitted Failed = True"
| "valid_transition _ _ = False"

text \<open>
  What a transition records with the new status: the relay's tracking handle, the nonce,
  the error or revert reason, the on-chain reference. A field that is \<open>None\<close> leaves the
  record's field as it is.
\<close>

record extra =
  x_trackingHandle :: "string option"
  x_assignedNonce :: "nat option"
  x_lastError :: "string option"
  x_onChainRef :: "string option"

definition keep :: "'a option \<Rightarrow> 'a option \<Rightarrow> 'a option" where
  "keep new old = (case new of None \<Rightarrow> old | Some v \<Rightarrow> Some v)"

definition record_extra :: "status \<Rightarrow> extra \<Rightarrow> submission_record \<Rightarrow> submission_record" where
  "record_extra newStatus x r =
     r\<lparr>status := newStatus,
       trackingHandle := keep (x_trackingHandle x) (trackingHandle r),
       assignedNonce := keep (x_assignedNonce x) (assignedNonce r),
       lastError := keep (x_lastError x) (lastError r),
       onChainRef := keep (x_onChainRef x) (onChainRef r)\<rparr>"

text \<open>
  Modelled from the spec: the Submission Ledger's \<open>advance(key, newStatus, extra)\<close> of section
  4.5, absent from the repository. A transition of the lifecycle is recorded; any other
  fails with \<open>InvalidTransition\<close>, and so does a key that has no record.
\<close>

definition advance ::
  "string \<Rightarrow> status \<Rightarrow> extra \<Rightarrow> submission_ledger \<Rightarrow> (error + submission_record) \<times> submission_ledger" where
  "advance key newStatus x ledger =
     (case ledger key of
        None \<Rightarrow> (Inl InvalidTransition, ledger)
      | Some r \<Rightarrow>
          if valid_transition (status r) newStatus
          then (let r' = record_extra newStatus x r in (Inr r', ledger(key \<mapsto> r')))
          else (Inl InvalidTransition, ledger))"

text \<open>
  Modelled from the spec: the Submission Ledger's \<open>beginOrGet(mintRequest)\<close> of section 4.5,
  absent from the repository, on the request's idempotency key: a key with no record gets
  one in \<open>Pending\<close>, returned as new (\<open>True\<close>); a key with a record gets that record,
  returned as existing (\<open>False\<close>).
\<close>

definition beginOrGet ::
  "nat \<Rightarrow> string \<Rightarrow> submission_ledger \<Rightarrow> (bool \<times> submission_record) \<times> submission_ledger" where
  "beginOrGet now key ledger =
     (case ledger key of
        None \<Rightarrow>
          (let r = \<lparr>status = Pending, trackingHandle = None, assignedNonce = None,
                    createdAt = now, lastError = None, onChainRef = None\<rparr>
           in ((True, r), ledger(key \<mapsto> r)))
      | Some r \<Rightarrow> ((False, r), ledger))"

datatype ledger_call =
    BeginOrGet nat string
  | Advance string status extra

fun ledger_step :: "ledger_call \<Rightarrow> submission_ledger \<Rightarrow> submission_ledger" where
  "ledger_step (BeginOrGet now key) ledger = snd (beginOrGet now key ledger)"
| "ledger_step (Advance key newStatus x) ledger = snd (advance key newStatus x ledger)"

fun ledger_run :: "ledger_call list \<Rightarrow> submission_ledger \<Rightarrow> submission_ledger" where
  "ledger_run [] ledger = ledger"
| "ledger_run (c # cs) ledger = ledger_run cs (ledger_step c ledger)"

definition no_extra :: extra where
  "no_extra = \<lparr>x_trackingHandle = None, x_assignedNonce = None, x_lastError = None,
               x_onChainRef = None\<rparr>"

definition handle_extra :: "string \<Rightarrow> extra" where
  "handle_extra h = no_extra\<lparr>x_trackingHandle := Some h\<rparr>"

text \<open>
  The ledger after a mint with key \<open>k1\<close> was accepted at time 10, submitted under the
  handle \<open>t1\<close> and mined, and the record it then holds for \<open>k1\<close>.
\<close>

definition mined_ledger :: submission_ledger where
  "mined_ledger =
     ledger_run
       [BeginOrGet 10 ''k1'',
        Advance ''k1'' Submitted (handle_extra ''t1''),
        Advance ''k1'' Mined (no_extra\<lparr>x_onChainRef := Some ''block 42''\<rparr>)]
       Map.empty"

definition mined_record :: submission_record where
  "mined_record =
     \<lparr>status = Mined, trackingHandle = Some ''t1'', assignedNonce = None, createdAt = 10,
      lastError = None, onChainRef = Some ''block 42''\<rparr>"

section \<open>Properties of the handler\<close>

lemma sdk_calls_append: "sdk_calls (xs @ ys) = sdk_calls xs @ sdk_calls ys"
  by (induction xs rule: sdk_calls.induct) simp_all

text \<open>The events of one request, whatever the request, the SDK and the response object are.\<close>

lemma mint_handler_events:
  "events (mint_handler sdk req res s) =
     events s @ SdkMint mint_to mint_count mint_tokenURIs #
       (case fst (sdk mint_to mint_count mint_tokenURIs (world s)) of
          Inl err \<Rightarrow> [NextErr err]
        | Inr data \<Rightarrow> ResSend data # (case res data of Some err \<Rightarrow> [NextErr err] | None \<Rightarrow> []))"
  by (simp add: mint_handler_def asyncHandler_def mint_route_def emit_def Let_def
      split: prod.splits sum.splits option.splits)

lemma mint_handler_world:
  "world (mint_handler sdk req res s) = snd (sdk mint_to mint_count mint_tokenURIs (world s))"
  by (simp add: mint_handler_def asyncHandler_def mint_route_def emit_def Let_def
      split: prod.splits sum.splits option.splits)

lemma mint_handler_since:
  "since s (mint_handler sdk req res s) =
     SdkMint mint_to mint_count mint_tokenURIs #
       (case fst (sdk mint_to mint_count mint_tokenURIs (world s)) of
          Inl err \<Rightarrow> [NextErr err]
        | Inr data \<Rightarrow> ResSend data # (case res data of Some err \<Rightarrow> [NextErr err] | None \<Rightarrow> []))"
  by (simp add: since_def mint_handler_events)


lemma mint_handler_any_request: "mint_handler sdk req res s = mint_handler sdk req' res s"
  by (simp add: mint_handler_def asyncHandler_def mint_route_def)

subsection \<open>C9: one SDK call with fixed arguments\<close>


subsection \<open>C10: a rejection reaches Express\<close>




subsection \<open>C1: the idempotency key\<close>

text \<open>
  C1 says that a second request with the same idempotency key produces no second envelope
  and returns the first one's tracking state. The handler reads no key: served the same
  request twice, it calls the SDK twice, and with the stand-in SDK the body of the second
  response is not the body of the first.
\<close>

theorem same_key_twice_counterexample:
  "sdk_calls (events (serve demo_sdk
       [(mint_request ''0xabc'' ''2'' [''ipfs://a'', ''ipfs://b''] ''k1'', ok_res),
        (mint_request ''0xabc'' ''2'' [''ipfs://a'', ''ipfs://b''] ''k1'', ok_res)] (fresh 0))) =
     [(mint_to, mint_count, mint_tokenURIs), (mint_to, mint_count, mint_tokenURIs)]
   \<and> sent (events (serve demo_sdk
       [(mint_request ''0xabc'' ''2'' [''ipfs://a'', ''ipfs://b''] ''k1'', ok_res),
        (mint_request ''0xabc'' ''2'' [''ipfs://a'', ''ipfs://b''] ''k1'', ok_res)] (fresh 0))) =
     [0, 1]"
  by (simp add: mint_handler_events mint_handler_world demo_sdk_def ok_res_def fresh_def
      mint_count_def mint_tokenURIs_def)

text \<open>
  C1, amended. The handler has no idempotency mechanism: every request served, whatever
  key it carries, is one more call of the SDK, so that \<open>n\<close> requests make \<open>n\<close> calls, all
  with the same arguments.
\<close>

theorem mint_replays_every_request:
  "sdk_calls (events (serve sdk reqs s)) =
     sdk_calls (events s) @ replicate (length reqs) (mint_to, mint_count, mint_tokenURIs)"
proof (induction reqs arbitrary: s)
  case Nil
  show ?case by simp
next
  case (Cons r rs)
  obtain req res where r: "r = (req, res)"
    by (cases r)
  have "sdk_calls (events (mint_handler sdk req res s)) =
          sdk_calls (events s) @ [(mint_to, mint_count, mint_tokenURIs)]"
    by (simp add: mint_handler_events sdk_calls_append split: sum.splits option.splits)
  with Cons.IH [of "mint_handler sdk req res s"] r show ?case
    by (simp add: replicate_app_Cons_same)
qed

subsection \<open>C2: a count that is not the number of token URIs\<close>

text \<open>
  C2 says that a mint request whose \<open>count\<close> is not the length of its \<open>tokenURIs\<close> fails with
  \<open>InvalidRequest\<close> before a nonce is allocated. A request with \<open>count = 2\<close> and one token URI
  does not fail: the stand-in SDK, which would reject such a call, is called with the
  handler's own arguments, takes the submission (its counter goes from 5 to 6) and the
  handler sends the result; nothing goes to \<^verbatim>\<open>next\<close>.
\<close>

theorem count_mismatch_counterexample:
  "int (length [''ipfs://a'']) \<noteq> 2
   \<and> demo_sdk ''0xabc'' 2 [''ipfs://a''] 5 = (Inl (Coded InvalidRequest), 5)
   \<and> mint_handler demo_sdk (mint_request ''0xabc'' ''2'' [''ipfs://a''] ''k1'') ok_res (fresh 5) =
       \<lparr>world = 6, events = [SdkMint mint_to mint_count mint_tokenURIs, ResSend 5]\<rparr>
   \<and> forwarded (events (mint_handler demo_sdk (mint_request ''0xabc'' ''2'' [''ipfs://a''] ''k1'')
       ok_res (fresh 5))) = []"
  by (simp add: mint_handler_def asyncHandler_def mint_route_def emit_def demo_sdk_def
      ok_res_def fresh_def mint_count_def mint_tokenURIs_def)

text \<open>
  C2, amended. The handler validates nothing and fails with no error of its own: whatever
  \<open>count\<close> and \<open>tokenURIs\<close> a request carries, the first thing the handler does is to call
  the SDK, with its own \<open>count\<close>, which is the length of its own \<open>tokenURIs\<close>. The only
  errors that go to \<^verbatim>\<open>next\<close> are the error of that call, when it rejects, and what
  \<^verbatim>\<open>res.send\<close> throws, when the call resolves and \<^verbatim>\<open>res.send\<close> throws; the request has no
  part in either.
\<close>

theorem mint_never_validates:
  "take 1 (since s (mint_handler sdk req res s)) = [SdkMint mint_to mint_count mint_tokenURIs]
   \<and> mint_count = int (length mint_tokenURIs)
   \<and> forwarded (since s (mint_handler sdk req res s)) =
       (case fst (sdk mint_to mint_count mint_tokenURIs (world s)) of
          Inl err \<Rightarrow> [err]
        | Inr data \<Rightarrow> (case res data of Some err \<Rightarrow> [err] | None \<Rightarrow> []))"
  by (simp add: mint_handler_since mint_count_def mint_tokenURIs_def
      split: sum.splits option.splits)

subsection \<open>C3: the inputs of the mint operation\<close>

text \<open>
  C3 says that the operation takes recipient, count, token URIs and idempotency key from
  the caller and that the response is a function of these inputs. A request for one token
  to \<open>0xabc\<close> makes the handler mint two tokens to its own address; and the same request
  gets the body 0 from a relayer that has taken no submission and the body 5 from one
  that has taken five.
\<close>

theorem caller_inputs_counterexample:
  "sdk_calls (events (mint_handler demo_sdk (mint_request ''0xabc'' ''1'' [''ipfs://a''] ''k1'')
       ok_res (fresh 0))) =
     [(''0x07ac68355ff8663c09644bc50bb02b60140842a8'', 2, [''ipfs://xxxxx/1'', ''ipfs://xxxxx/2''])]
   \<and> (''0x07ac68355ff8663c09644bc50bb02b60140842a8'', 2::int, [''ipfs://xxxxx/1'', ''ipfs://xxxxx/2''])
       \<noteq> (''0xabc'', 1, [''ipfs://a''])
   \<and> sent (events (mint_handler demo_sdk (mint_request ''0xabc'' ''1'' [''ipfs://a''] ''k1'')
       ok_res (fresh 0))) = [0]
   \<and> sent (events (mint_handler demo_sdk (mint_request ''0xabc'' ''1'' [''ipfs://a''] ''k1'')
       ok_res (fresh 5))) = [5]"
  by (simp add: mint_handler_events demo_sdk_def ok_res_def fresh_def mint_to_def mint_count_def
      mint_tokenURIs_def)

text \<open>
  C3, amended. The operation takes nothing from the caller: two requests served in the
  same state, with the same response object, leave the same state, whatever they hold.
  What happens is decided by the SDK call and by \<^verbatim>\<open>res.send\<close> alone: when the call rejects,
  its error goes to \<^verbatim>\<open>next\<close> as it is; when it resolves, its value is given to \<^verbatim>\<open>res.send\<close>
  as it is, and what \<^verbatim>\<open>res.send\<close> throws, if it throws, goes to \<^verbatim>\<open>next\<close>.
\<close>

theorem mint_ignores_request:
  "mint_handler sdk req res s = mint_handler sdk req' res s
   \<and> since s (mint_handler sdk req res s) =
       SdkMint mint_to mint_count mint_tokenURIs #
         (case fst (sdk mint_to mint_count mint_tokenURIs (world s)) of
            Inl err \<Rightarrow> [NextErr err]
          | Inr data \<Rightarrow>
              ResSend data # (case res data of Some err \<Rightarrow> [NextErr err] | None \<Rightarrow> []))"
  using mint_handler_any_request [of sdk req res s req'] by (simp add: mint_handler_since)

section \<open>Properties of the Relay Client\<close>

lemma transient_not_permanent: "transient resp \<Longrightarrow> \<not> permanent resp"
  by (cases resp) simp_all

lemma submit_attempts_policy:
  "submit_attempts n cfg env st = (res, st') \<Longrightarrow>
     \<exists>new. relay_log st' = relay_log st @ new \<and> retry_policy cfg n res st st' new"
proof (induction n arbitrary: st)
  case 0
  then show ?case by auto
next
  case (Suc n)
  obtain resp r' where send: "relay_send cfg env (relay st) = (resp, r')"
    by (cases "relay_send cfg env (relay st)")
  define st1 where "st1 = st\<lparr>relay := r', relay_log := relay_log st @ [Attempt env resp]\<rparr>"
  define a where "a = signing_account cfg"
  show ?case
  proof (cases "transient resp")
    case True
    with Suc.prems send have "submit_attempts n cfg env st1 = (res, st')"
      by (cases resp) (simp_all add: st1_def)
    from Suc.IH [OF this] obtain new where
      new: "relay_log st' = relay_log st1 @ new" "retry_policy cfg n res st1 st' new"
      by blast
    have "relay_log st' = relay_log st @ (Attempt env resp # new)"
      using new(1) by (simp add: st1_def)
    moreover have "retry_policy cfg (Suc n) res st st' (Attempt env resp # new)"
      using new(2) True
      by (cases "responses new") (auto simp: st1_def dest: transient_not_permanent)
    ultimately show ?thesis by blast
  next
    case False
    show ?thesis
    proof (cases resp)
      case (Rejected reason)
      with Suc.prems send have res: "res = Inl RelayRejected" and st': "st' = reconcile_nonce cfg st1"
        by (simp_all add: st1_def)
      have "relay_log st' = relay_log st @ [Attempt env resp, Reconcile a (chain_nonce cfg (relay st') a)]"
        using st' by (simp add: reconcile_nonce_def st1_def a_def Let_def)
      moreover have "retry_policy cfg (Suc n) res st st'
          [Attempt env resp, Reconcile a (chain_nonce cfg (relay st') a)]"
        using res st' Rejected by (simp add: reconcile_nonce_def st1_def a_def Let_def)
      ultimately show ?thesis by blast
    next
      case (Accepted h)
      with Suc.prems send have res: "res = Inr h" and st': "st' = st1"
        by (simp_all add: st1_def)
      have "relay_log st' = relay_log st @ [Attempt env resp]"
        using st' by (simp add: st1_def)
      moreover have "retry_policy cfg (Suc n) res st st' [Attempt env resp]"
        using res st' Accepted by (simp add: st1_def)
      ultimately show ?thesis by blast
    next
      case (AlreadySeen h)
      with Suc.prems send have res: "res = Inr h" and st': "st' = st1"
        by (simp_all add: st1_def)
      have "relay_log st' = relay_log st @ [Attempt env resp]"
        using st' by (simp add: st1_def)
      moreover have "retry_policy cfg (Suc n) res st st' [Attempt env resp]"
        using res st' AlreadySeen by (simp add: st1_def)
      ultimately show ?thesis by blast
    qed (use False in simp_all)
  qed
qed

subsection \<open>C6: what is retried, and how a submission fails\<close>

text \<open>
  C6. A call of \<open>submit\<close> adds to the log at most \<open>maxAttempts\<close> attempts, and every attempt
  that was followed by another one had failed transiently (a timeout, a 5xx-equivalent
  response, a connection error). The call fails with \<open>RelayUnavailable\<close> exactly when all
  \<open>maxAttempts\<close> attempts were made and failed transiently, and with \<open>RelayRejected\<close>
  exactly when its last attempt was rejected for good; in that case the nonce is
  reconciled exactly once, to the chain's value, and otherwise not at all.
\<close>

theorem submit_retry_policy:
  assumes "submit cfg env st = (res, st')"
  shows "\<exists>new. relay_log st' = relay_log st @ new \<and>
           length (responses new) \<le> maxAttempts cfg \<and>
           list_all transient (butlast (responses new)) \<and>
           (res = Inl RelayUnavailable) =
             (length (responses new) = maxAttempts cfg \<and> list_all transient (responses new)) \<and>
           (res = Inl RelayRejected) =
             (responses new \<noteq> [] \<and> permanent (last (responses new))) \<and>
           reconciliations new =
             (if res = Inl RelayRejected
              then [(signing_account cfg, chain_nonce cfg (relay st') (signing_account cfg))]
              else []) \<and>
           nonces st' =
             (if res = Inl RelayRejected
              then reconcile (signing_account cfg)
                     (chain_nonce cfg (relay st') (signing_account cfg)) (nonces st)
              else nonces st)"
  using assms unfolding submit_def by (rule submit_attempts_policy)

lemma demo_submit_rejected:
  "submit (demo_relay 3) demo_envelope
     (demo_client [Timeout, ServerError, Rejected ''nonce consumed'']) =
   (Inl RelayRejected,
    \<lparr>relay = [], nonces = reconcile ''minter'' 7 (\<lambda>a. 6),
     relay_log = [Attempt demo_envelope Timeout, Attempt demo_envelope ServerError,
                  Attempt demo_envelope (Rejected ''nonce consumed''), Reconcile ''minter'' 7]\<rparr>)"
  by (simp add: submit_def demo_relay_def demo_client_def scripted_def numeral_3_eq_3
      reconcile_nonce_def Let_def)

theorem submit_retry_policy_witness:
  "submit (demo_relay 3) demo_envelope
     (demo_client [Timeout, ServerError, Rejected ''nonce consumed'']) =
   (Inl RelayRejected,
    \<lparr>relay = [], nonces = reconcile ''minter'' 7 (\<lambda>a. 6),
     relay_log = [Attempt demo_envelope Timeout, Attempt demo_envelope ServerError,
                  Attempt demo_envelope (Rejected ''nonce consumed''), Reconcile ''minter'' 7]\<rparr>)
   \<and> (\<exists>new. [Attempt demo_envelope Timeout, Attempt demo_envelope ServerError,
              Attempt demo_envelope (Rejected ''nonce consumed''), Reconcile ''minter'' 7] = new
         \<and> length (responses new) \<le> 3
         \<and> list_all transient (butlast (responses new))
         \<and> permanent (last (responses new))
         \<and> reconciliations new = [(''minter'', 7)])"
  using submit_retry_policy [OF demo_submit_rejected] demo_submit_rejected
  by (simp add: demo_relay_def demo_client_def)

text \<open>With two attempts allowed, the same relay is given up on before it rejects.\<close>

lemma demo_submit_unavailable:
  "submit (demo_relay 2) demo_envelope
     (demo_client [Timeout, ServerError, Rejected ''nonce consumed'']) =
   (Inl RelayUnavailable,
    \<lparr>relay = [Rejected ''nonce consumed''], nonces = (\<lambda>a. 6),
     relay_log = [Attempt demo_envelope Timeout, Attempt demo_envelope ServerError]\<rparr>)"
  by (simp add: submit_def demo_relay_def demo_client_def scripted_def numeral_2_eq_2 Let_def)

section \<open>Properties of the Submission Ledger\<close>

lemma terminal_no_transition: "terminal a \<Longrightarrow> \<not> valid_transition a b"
  by (cases a; cases b) (simp_all add: terminal_def)

lemma advance_invalid:
  "ledger key = Some r \<Longrightarrow> \<not> valid_transition (status r) newStatus \<Longrightarrow>
     advance key newStatus x ledger = (Inl InvalidTransition, ledger)"
  by (simp add: advance_def)

lemma ledger_step_terminal:
  "ledger key = Some r \<Longrightarrow> terminal (status r) \<Longrightarrow> ledger_step c ledger key = Some r"
proof (cases c)
  case (BeginOrGet now k)
  assume "ledger key = Some r"
  then show ?thesis using BeginOrGet
    by (auto simp: beginOrGet_def Let_def split: option.splits)
next
  case (Advance k newStatus x)
  assume r: "ledger key = Some r" and t: "terminal (status r)"
  show ?thesis
  proof (cases "k = key")
    case True
    with r t Advance show ?thesis
      by (simp add: advance_invalid terminal_no_transition)
  next
    case False
    with r Advance show ?thesis
      by (auto simp: advance_def Let_def split: option.splits)
  qed
qed

lemma ledger_run_terminal:
  "ledger key = Some r \<Longrightarrow> terminal (status r) \<Longrightarrow> ledger_run cs ledger key = Some r"
  by (induction cs arbitrary: ledger) (simp_all add: ledger_step_terminal)

lemma mined_ledger_k1: "mined_ledger ''k1'' = Some mined_record"
  by (simp add: mined_ledger_def mined_record_def beginOrGet_def advance_def record_extra_def
      keep_def no_extra_def handle_extra_def Let_def)

subsection \<open>C7: terminal records, and transitions out of order\<close>

text \<open>
  C7. For a key that has a record: a call of \<open>advance\<close> that asks for a transition other
  than \<open>Pending\<close> to \<open>Submitted\<close>, \<open>Submitted\<close> to \<open>Mined\<close> and \<open>Submitted\<close> to \<open>Failed\<close> fails
  with \<open>InvalidTransition\<close> and leaves the ledger as it was; when the record is \<open>Mined\<close> or
  \<open>Failed\<close>, every call of \<open>advance\<close> on the key fails so, and after any sequence of calls of
  \<open>beginOrGet\<close> and \<open>advance\<close>, on any keys, the key still has the same record.
\<close>

theorem terminal_record_is_final:
  assumes "ledger key = Some r"
  shows "(\<not> valid_transition (status r) newStatus \<longrightarrow>
            advance key newStatus x ledger = (Inl InvalidTransition, ledger)) \<and>
         (terminal (status r) \<longrightarrow>
            advance key newStatus x ledger = (Inl InvalidTransition, ledger) \<and>
            ledger_run calls ledger key = Some r) \<and>
         (valid_transition a b \<longleftrightarrow>
            (a, b) \<in> {(Pending, Submitted), (Submitted, Mined), (Submitted, Failed)})"
proof (intro conjI impI)
  assume "\<not> valid_transition (status r) newStatus"
  with assms show "advance key newStatus x ledger = (Inl InvalidTransition, ledger)"
    by (rule advance_invalid)
next
  assume t: "terminal (status r)"
  with assms show "advance key newStatus x ledger = (Inl InvalidTransition, ledger)"
    by (simp add: advance_invalid terminal_no_transition)
  from assms t show "ledger_run calls ledger key = Some r"
    by (rule ledger_run_terminal)
next
  show "valid_transition a b \<longleftrightarrow>
          (a, b) \<in> {(Pending, Submitted), (Submitted, Mined), (Submitted, Failed)}"
    by (cases a; cases b) simp_all
qed

theorem terminal_record_is_final_witness:
  "mined_ledger ''k1'' = Some mined_record \<and> terminal (status mined_record) \<and>
   \<not> valid_transition (status mined_record) Submitted \<and>
   advance ''k1'' Submitted (handle_extra ''t2'') mined_ledger =
     (Inl InvalidTransition, mined_ledger) \<and>
   ledger_run [Advance ''k1'' Failed no_extra, BeginOrGet 11 ''k1'', Advance ''k1'' Pending no_extra]
     mined_ledger ''k1'' = Some mined_record"
  using terminal_record_is_final [where ledger = mined_ledger and key = "''k1''"
      and r = mined_record and newStatus = Submitted and x = "handle_extra ''t2''"
      and calls = "[Advance ''k1'' Failed no_extra, BeginOrGet 11 ''k1'',
                    Advance ''k1'' Pending no_extra]"
      and a = Pending and b = Failed]
    mined_ledger_k1
  by (simp add: mined_record_def terminal_def)

end
